theory Spec2Isabelle
  imports Complex_Main
begin

section \<open>Floating-point values of the data frame\<close>

text \<open>
  The columns of the pandas data frame hold float64 values. A finite float is modelled
  by the real number it stands for (binary rounding of arithmetic results is not
  modelled), and the three special values that decide the control flow of the program
  are kept: NaN (a missing value of pandas), and the two infinities that a division by
  zero of numpy produces instead of raising. The sign of a zero is not tracked: a zero
  divisor is taken as positive.
\<close>

datatype fl = Fin real | PInf | NInf | NaN

fun fneg :: "fl \<Rightarrow> fl" where
  "fneg (Fin x) = Fin (- x)"
| "fneg PInf = NInf"
| "fneg NInf = PInf"
| "fneg NaN = NaN"

fun fadd :: "fl \<Rightarrow> fl \<Rightarrow> fl" where
  "fadd (Fin x) (Fin y) = Fin (x + y)"
| "fadd NaN _ = NaN"
| "fadd _ NaN = NaN"
| "fadd PInf NInf = NaN"
| "fadd NInf PInf = NaN"
| "fadd PInf _ = PInf"
| "fadd NInf _ = NInf"
| "fadd _ PInf = PInf"
| "fadd _ NInf = NInf"

definition fsub :: "fl \<Rightarrow> fl \<Rightarrow> fl" where
  "fsub a b = fadd a (fneg b)"

text \<open>The sign of a finite value, used where an infinity takes part in a product.\<close>

definition inf_signed :: "bool \<Rightarrow> fl" where
  "inf_signed positive = (if positive then PInf else NInf)"

fun fmul :: "fl \<Rightarrow> fl \<Rightarrow> fl" where
  "fmul (Fin x) (Fin y) = Fin (x * y)"
| "fmul NaN _ = NaN"
| "fmul _ NaN = NaN"
| "fmul PInf (Fin y) = (if y = 0 then NaN else inf_signed (0 < y))"
| "fmul NInf (Fin y) = (if y = 0 then NaN else inf_signed (y < 0))"
| "fmul (Fin x) PInf = (if x = 0 then NaN else inf_signed (0 < x))"
| "fmul (Fin x) NInf = (if x = 0 then NaN else inf_signed (x < 0))"
| "fmul PInf PInf = PInf"
| "fmul NInf NInf = PInf"
| "fmul PInf NInf = NInf"
| "fmul NInf PInf = NInf"

text \<open>
  Division of numpy floats never raises: a nonzero value over zero is an infinity, zero
  over zero is NaN, a finite value over an infinity is zero.
\<close>

fun fdiv :: "fl \<Rightarrow> fl \<Rightarrow> fl" where
  "fdiv (Fin x) (Fin y) =
     (if y = 0 then (if x = 0 then NaN else inf_signed (0 < x)) else Fin (x / y))"
| "fdiv NaN _ = NaN"
| "fdiv _ NaN = NaN"
| "fdiv (Fin x) PInf = Fin 0"
| "fdiv (Fin x) NInf = Fin 0"
| "fdiv PInf (Fin y) = inf_signed (0 \<le> y)"
| "fdiv NInf (Fin y) = inf_signed (y < 0)"
| "fdiv PInf PInf = NaN"
| "fdiv PInf NInf = NaN"
| "fdiv NInf PInf = NaN"
| "fdiv NInf NInf = NaN"

text \<open>Comparisons: every comparison with NaN is false.\<close>

fun flt :: "fl \<Rightarrow> fl \<Rightarrow> bool" where
  "flt (Fin x) (Fin y) = (x < y)"
| "flt NaN _ = False"
| "flt _ NaN = False"
| "flt NInf NInf = False"
| "flt NInf _ = True"
| "flt PInf _ = False"
| "flt (Fin x) PInf = True"
| "flt (Fin x) NInf = False"

definition fgt :: "fl \<Rightarrow> fl \<Rightarrow> bool" where
  "fgt a b = flt b a"

definition fge :: "fl \<Rightarrow> fl \<Rightarrow> bool" where
  "fge a b = (flt b a \<or> (a = b \<and> a \<noteq> NaN))"

text \<open>
  Python's \<open>min(a, b)\<close> keeps its first argument unless the second is smaller, so a NaN
  in second place is ignored and a NaN in first place is returned.
\<close>

definition py_min :: "fl \<Rightarrow> fl \<Rightarrow> fl" where
  "py_min a b = (if flt b a then b else a)"

text \<open>
  \<open>round(x, 2)\<close> of a numpy float is \<open>rint(x * 100) / 100\<close>: the nearest multiple of one
  hundredth. The product is a binary float, so when the exact value of \<open>x * 100\<close> lies
  halfway between two integers, the side the code takes is decided by the binary rounding
  of that product, which is not modelled here. The side taken at such a tie is therefore
  a parameter: \<open>tie y\<close> tells whether the halfway value \<open>y\<close> goes up. Away from a tie the
  parameter is not read. NaN and the infinities are returned as they are.
\<close>

definition rint :: "(real \<Rightarrow> bool) \<Rightarrow> real \<Rightarrow> int" where
  "rint tie x =
     (let f = \<lfloor>x\<rfloor>; d = x - of_int f
      in if d < 1 / 2 then f else if 1 / 2 < d then f + 1
         else if tie x then f + 1 else f)"

definition round2_real :: "(real \<Rightarrow> bool) \<Rightarrow> real \<Rightarrow> real" where
  "round2_real tie x = of_int (rint tie (x * 100)) / 100"

fun round2 :: "(real \<Rightarrow> bool) \<Rightarrow> fl \<Rightarrow> fl" where
  "round2 tie (Fin x) = Fin (round2_real tie x)"
| "round2 tie v = v"

text \<open>Two ways to take the ties: to the even neighbour, and up at the listed values only.\<close>

definition ties_to_even :: "real \<Rightarrow> bool" where
  "ties_to_even y = odd \<lfloor>y\<rfloor>"




section \<open>Data model\<close>

text \<open>
  A bar as the data provider returns it; only the columns the indicators read are kept.
  Provider values are taken to be finite numbers.
\<close>

record bar =
  high :: real
  low :: real
  close :: real

text \<open>A row of the data frame after \<open>calculate_indicators\<close>.\<close>

record row =
  r_high :: fl
  r_low :: fl
  r_close :: fl
  MA5 :: fl
  MA20 :: fl
  MA60 :: fl
  ATR :: fl
  RSI :: fl
  Pivot :: fl
  S1 :: fl
  R1 :: fl

datatype action = Buy | Sell | Hold

text \<open>
  The three reason strings of the source, in its order: take profit or overbought,
  stop loss, hold and watch.
\<close>

datatype reason = TakeProfitOverbought | StopLoss | HoldWatch

text \<open>
  The signal dictionary. Keys \<open>action\<close> and \<open>price\<close> are always there; \<open>stop_loss\<close>
  and \<open>target\<close> only in the signals of the flat state, \<open>reason\<close> only in those of the
  long state.
\<close>

record signal =
  s_action :: action
  s_price :: fl
  s_stop_loss :: "fl option"
  s_target :: "fl option"
  s_reason :: "reason option"

text \<open>An entry of the trade log (the time stamp is left out).\<close>

record trade =
  t_action :: action
  t_price :: fl
  t_position :: int

text \<open>The fields of \<open>TradingSystem\<close>: position 0 is flat, 1 is long.\<close>

record trading_system =
  position :: int
  last_trade_price :: "fl option"
  trade_log :: "trade list"

definition init :: trading_system where
  "init = \<lparr>position = 0, last_trade_price = None, trade_log = []\<rparr>"

datatype error = IndexError | TypeError | KeyError

section \<open>Indicator engine\<close>

text \<open>
  The pandas operations of \<open>calculate_indicators\<close>, by their documented meaning on a
  column of finite values. A rolling window of size \<open>k\<close> at row \<open>i\<close> holds the rows
  \<open>i - k + 1\<close> to \<open>i\<close>; with fewer than \<open>k\<close> rows the result is NaN (the default
  \<open>min_periods\<close> is the window size). Nothing here raises.
\<close>

definition window :: "nat \<Rightarrow> real list \<Rightarrow> nat \<Rightarrow> real list" where
  "window k xs i = take k (drop (Suc i - k) xs)"

definition rolling_mean :: "nat \<Rightarrow> real list \<Rightarrow> fl list" where
  "rolling_mean k xs =
     map (\<lambda>i. if Suc i < k then NaN else Fin (sum_list (window k xs i) / real k))
       [0..<length xs]"

definition rolling_max :: "nat \<Rightarrow> real list \<Rightarrow> fl list" where
  "rolling_max k xs =
     map (\<lambda>i. if Suc i < k then NaN else Fin (Max (set (window k xs i)))) [0..<length xs]"

definition rolling_min :: "nat \<Rightarrow> real list \<Rightarrow> fl list" where
  "rolling_min k xs =
     map (\<lambda>i. if Suc i < k then NaN else Fin (Min (set (window k xs i)))) [0..<length xs]"

text \<open>\<open>Series.diff()\<close>: the first row has no predecessor and is NaN.\<close>

definition diff :: "real list \<Rightarrow> fl list" where
  "diff xs = (case xs of [] \<Rightarrow> [] | _ # rest \<Rightarrow> NaN # map2 (\<lambda>a b. Fin (a - b)) rest xs)"

text \<open>\<open>Series.where(cond, other)\<close>: keep the value where the condition holds.\<close>

definition where_series :: "(fl \<Rightarrow> bool) \<Rightarrow> fl \<Rightarrow> fl list \<Rightarrow> fl list" where
  "where_series cond other xs = map (\<lambda>d. if cond d then d else other) xs"

text \<open>
  \<open>ewm(alpha).mean()\<close> with the default \<open>adjust=True\<close>: at row \<open>t\<close> the weighted mean
  of the rows \<open>0..t\<close>, row \<open>t - i\<close> weighing \<open>(1 - alpha) ^ i\<close>. The numerator and the
  sum of the weights are carried along the column.
\<close>

fun ewm_from :: "real \<Rightarrow> fl \<Rightarrow> real \<Rightarrow> fl list \<Rightarrow> fl list" where
  "ewm_from alpha num den [] = []"
| "ewm_from alpha num den (x # xs) =
     (let num' = fadd x (fmul (Fin (1 - alpha)) num);
          den' = 1 + (1 - alpha) * den
      in fdiv num' (Fin den') # ewm_from alpha num' den' xs)"

definition ewm_mean :: "real \<Rightarrow> fl list \<Rightarrow> fl list" where
  "ewm_mean alpha xs = ewm_from alpha (Fin 0) 0 xs"

definition gain :: "real list \<Rightarrow> fl list" where
  "gain closes = where_series (\<lambda>d. fgt d (Fin 0)) (Fin 0) (diff closes)"

definition loss :: "real list \<Rightarrow> fl list" where
  "loss closes = map fneg (where_series (\<lambda>d. flt d (Fin 0)) (Fin 0) (diff closes))"

definition avg_gain :: "real list \<Rightarrow> fl list" where
  "avg_gain closes = ewm_mean (1 / 14) (gain closes)"

definition avg_loss :: "real list \<Rightarrow> fl list" where
  "avg_loss closes = ewm_mean (1 / 14) (loss closes)"

text \<open>The RSI of a row from its two smoothed averages; there is no guard on the divisor.\<close>

definition rsi_of :: "fl \<Rightarrow> fl \<Rightarrow> fl" where
  "rsi_of g l = fsub (Fin 100) (fdiv (Fin 100) (fadd (Fin 1) (fdiv g l)))"

definition pivot_of :: "bar \<Rightarrow> real" where
  "pivot_of b = (high b + low b + close b) / 3"

definition calculate_indicators :: "bar list \<Rightarrow> row list" where
  "calculate_indicators df =
     (let closes = map close df;
          ma5 = rolling_mean 5 closes;
          ma20 = rolling_mean 20 closes;
          ma60 = rolling_mean 60 closes;
          atr = map2 fsub (rolling_max 14 (map high df)) (rolling_min 14 (map low df));
          rsi = map2 rsi_of (avg_gain closes) (avg_loss closes)
      in map (\<lambda>i. \<lparr>r_high = Fin (high (df ! i)), r_low = Fin (low (df ! i)),
                    r_close = Fin (close (df ! i)),
                    MA5 = ma5 ! i, MA20 = ma20 ! i, MA60 = ma60 ! i,
                    ATR = atr ! i, RSI = rsi ! i,
                    Pivot = Fin (pivot_of (df ! i)),
                    S1 = Fin (2 * pivot_of (df ! i) - high (df ! i)),
                    R1 = Fin (2 * pivot_of (df ! i) - low (df ! i))\<rparr>)
           [0..<length df])"

section \<open>Signal generator\<close>

text \<open>
  \<open>generate_daily_signal\<close>. \<open>iloc[-1]\<close> raises IndexError on an empty frame; in the long
  state the subtraction raises TypeError when \<open>last_trade_price\<close> is None. The values
  \<open>prev\<close>, \<open>trend_down\<close> and \<open>atr_factor\<close> of the source are computed without raising
  and never read. The parameter \<open>tie\<close> is the side that \<open>round\<close> takes at a tie.
\<close>

definition trend_up :: "row \<Rightarrow> bool" where
  "trend_up latest = (fgt (MA5 latest) (MA20 latest) \<and> fgt (MA20 latest) (MA60 latest))"

definition generate_daily_signal ::
  "(real \<Rightarrow> bool) \<Rightarrow> trading_system \<Rightarrow> row list \<Rightarrow> error + signal" where
  "generate_daily_signal tie self stock_data =
     (if stock_data = [] then Inl IndexError
      else
        let latest = last stock_data in
        if position self = 0 then
          (if trend_up latest \<and> flt (RSI latest) (Fin 70) then
             let entry_price = py_min (fmul (r_close latest) (Fin (995 / 1000))) (S1 latest);
                 stop_loss = fsub entry_price (fmul (Fin 2) (ATR latest))
             in Inr \<lparr>s_action = Buy,
                     s_price = round2 tie entry_price,
                     s_stop_loss = Some (round2 tie stop_loss),
                     s_target = Some (round2 tie (fadd entry_price (fmul (Fin 3) (ATR latest)))),
                     s_reason = None\<rparr>
           else
             Inr \<lparr>s_action = (if trend_up latest then Buy else Sell),
                  s_price = r_close latest,
                  s_stop_loss = Some (fmul (r_close latest) (Fin (98 / 100))),
                  s_target = Some (fmul (r_close latest) (Fin (103 / 100))),
                  s_reason = None\<rparr>)
        else
          (case last_trade_price self of
             None \<Rightarrow> Inl TypeError
           | Some ltp \<Rightarrow>
               let current_return = fdiv (fsub (r_close latest) ltp) ltp in
               if fgt current_return (Fin (3 / 100)) \<or> fgt (RSI latest) (Fin 70) then
                 Inr \<lparr>s_action = Sell,
                      s_price = fmul (r_close latest) (Fin (1005 / 1000)),
                      s_stop_loss = None, s_target = None,
                      s_reason = Some TakeProfitOverbought\<rparr>
               else if flt current_return (Fin (- (2 / 100))) then
                 Inr \<lparr>s_action = Sell,
                      s_price = fmul (r_close latest) (Fin (995 / 1000)),
                      s_stop_loss = None, s_target = None,
                      s_reason = Some StopLoss\<rparr>
               else
                 Inr \<lparr>s_action = Hold,
                      s_price = r_close latest,
                      s_stop_loss = None, s_target = None,
                      s_reason = Some HoldWatch\<rparr>))"

section \<open>Position tracker\<close>

definition execute_trade :: "trading_system \<Rightarrow> signal \<Rightarrow> trading_system" where
  "execute_trade self sig =
     (let logged = self\<lparr>trade_log := trade_log self @
            [\<lparr>t_action = s_action sig, t_price = s_price sig, t_position = position self\<rparr>]\<rparr>
      in case s_action sig of
           Buy \<Rightarrow> logged\<lparr>position := 1, last_trade_price := Some (s_price sig)\<rparr>
         | Sell \<Rightarrow> logged\<lparr>position := 0, last_trade_price := None\<rparr>
         | Hold \<Rightarrow> logged)"

section \<open>One cycle of the strategy\<close>

text \<open>
  \<open>run_daily_strategy\<close>, from the frame that \<open>get_trade_data\<close> returned. Every
  exception is caught and printed, so the caller gets the tracker and what was printed:
  the report, or the exception. The report reads the key \<open>reason\<close> after the trade has
  been executed, and a signal of the flat state has no such key.
\<close>

datatype outcome = Reported signal | Failed error

definition run_daily_strategy ::
  "(real \<Rightarrow> bool) \<Rightarrow> trading_system \<Rightarrow> bar list \<Rightarrow> trading_system \<times> outcome" where
  "run_daily_strategy tie self stock_df =
     (case generate_daily_signal tie self (calculate_indicators stock_df) of
        Inl e \<Rightarrow> (self, Failed e)
      | Inr sig \<Rightarrow>
          (let self' = execute_trade self sig
           in case s_reason sig of
                None \<Rightarrow> (self', Failed KeyError)
              | Some _ \<Rightarrow> (self', Reported sig)))"

section \<open>Predicates of the claims\<close>

definition is_error :: "error + signal \<Rightarrow> bool" where
  "is_error r = (case r of Inl _ \<Rightarrow> True | Inr _ \<Rightarrow> False)"

text \<open>The position state of the specification: the position and the last trade price.\<close>

definition position_state :: "trading_system \<Rightarrow> int \<times> fl option" where
  "position_state self = (position self, last_trade_price self)"

definition price_iff_long :: "trading_system \<Rightarrow> bool" where
  "price_iff_long self = ((last_trade_price self \<noteq> None) = (position self = 1))"

text \<open>The signal of the second branch of the flat state, at a given close.\<close>

definition advisory :: "action \<Rightarrow> fl \<Rightarrow> signal" where
  "advisory a c =
     \<lparr>s_action = a, s_price = c, s_stop_loss = Some (fmul c (Fin (98 / 100))),
      s_target = Some (fmul c (Fin (103 / 100))), s_reason = None\<rparr>"

definition hold_at :: "fl \<Rightarrow> signal" where
  "hold_at c =
     \<lparr>s_action = Hold, s_price = c, s_stop_loss = None, s_target = None,
      s_reason = Some HoldWatch\<rparr>"

section \<open>Fixtures of the scenarios\<close>

text \<open>
  A row with the columns the signal generator reads; the columns it never reads are NaN.
  Arguments: close, MA5, MA20, MA60, RSI, ATR, S1.
\<close>

definition signal_row :: "fl \<Rightarrow> fl \<Rightarrow> fl \<Rightarrow> fl \<Rightarrow> fl \<Rightarrow> fl \<Rightarrow> fl \<Rightarrow> row" where
  "signal_row c m5 m20 m60 rsi atr s1 =
     \<lparr>r_high = NaN, r_low = NaN, r_close = c, MA5 = m5, MA20 = m20, MA60 = m60,
      ATR = atr, RSI = rsi, Pivot = NaN, S1 = s1, R1 = NaN\<rparr>"

text \<open>A tracker that holds a long position bought at the given price.\<close>

definition long_at :: "fl \<Rightarrow> trading_system" where
  "long_at p = \<lparr>position = 1, last_trade_price = Some p, trade_log = []\<rparr>"

text \<open>A bar whose high, low and close are the same value.\<close>

definition flat_bar :: "real \<Rightarrow> bar" where
  "flat_bar c = \<lparr>high = c, low = c, close = c\<rparr>"

text \<open>Bars whose closes rise by one from 10.\<close>

definition rising_bars :: "nat \<Rightarrow> bar list" where
  "rising_bars n = map (\<lambda>i. flat_bar (10 + real i)) [0..<n]"


section \<open>Rounding\<close>

lemma rint_of_int [simp]: "rint tie (of_int k) = k"
  by (simp add: rint_def Let_def)







text \<open>Away from a tie the result does not depend on the parameter.\<close>

lemma round2_real_no_tie:
  "x * 100 - of_int \<lfloor>x * 100\<rfloor> \<noteq> 1 / 2 \<Longrightarrow> round2_real tie x = round2_real tie' x"
  by (simp add: round2_real_def rint_def Let_def)

section \<open>The signal generator in the flat state\<close>



text \<open>The scenario gives the same signal whatever side the ties take.\<close>

lemma scenario_buy_any_tie:
  "generate_daily_signal tie init
     [signal_row (Fin 10) (Fin (105 / 10)) (Fin 10) (Fin (95 / 10)) (Fin 50) (Fin (5 / 10)) (Fin (98 / 10))] =
   Inr \<lparr>s_action = Buy, s_price = Fin (980 / 100), s_stop_loss = Some (Fin (880 / 100)),
        s_target = Some (Fin (1130 / 100)), s_reason = None\<rparr>"
  by (simp add: generate_daily_signal_def init_def signal_row_def trend_up_def fgt_def
      py_min_def fsub_def round2_real_def rint_def Let_def)


lemma unrounded_counterexample_any_tie:
  "generate_daily_signal tie init
     [signal_row (Fin (1001 / 100)) (Fin (105 / 10)) (Fin 10) (Fin (95 / 10)) (Fin 50) (Fin (5 / 10)) (Fin (998 / 100))] =
   Inr \<lparr>s_action = Buy, s_price = Fin (996 / 100), s_stop_loss = Some (Fin (896 / 100)),
        s_target = Some (Fin (1146 / 100)), s_reason = None\<rparr>"
  by (simp add: generate_daily_signal_def init_def signal_row_def trend_up_def fgt_def
      py_min_def fsub_def round2_real_def rint_def Let_def)

section \<open>The signal generator in the long state\<close>

text \<open>
  Claim C2, as amended. In the long state with a last trade price, the return is
  (close - last trade price) / last trade price; a return above 0.03 or an RSI above 70
  gives a sell at close times 1.005 (take profit or overbought), otherwise a return
  below -0.02 gives a sell at close times 0.995 (stop loss), otherwise a hold at close.
  The prices are not rounded.
\<close>

theorem long_signal:
  assumes "position self \<noteq> 0" and "last_trade_price self = Some ltp" and "stock_data \<noteq> []"
    and "current_return = fdiv (fsub (r_close (last stock_data)) ltp) ltp"
  shows "generate_daily_signal tie self stock_data =
     Inr (if fgt current_return (Fin (3 / 100)) \<or> fgt (RSI (last stock_data)) (Fin 70)
          then \<lparr>s_action = Sell, s_price = fmul (r_close (last stock_data)) (Fin (1005 / 1000)),
                s_stop_loss = None, s_target = None, s_reason = Some TakeProfitOverbought\<rparr>
          else if flt current_return (Fin (- (2 / 100)))
          then \<lparr>s_action = Sell, s_price = fmul (r_close (last stock_data)) (Fin (995 / 1000)),
                s_stop_loss = None, s_target = None, s_reason = Some StopLoss\<rparr>
          else \<lparr>s_action = Hold, s_price = r_close (last stock_data),
                s_stop_loss = None, s_target = None, s_reason = Some HoldWatch\<rparr>)"
  using assms by (simp add: generate_daily_signal_def Let_def)

text \<open>
  The two scenarios: bought at 10.00, close 10.35 and RSI 60 give a sell at 10.40175;
  close 9.75 gives a sell at 9.75 times 0.995.
\<close>

theorem long_signal_witness:
  "generate_daily_signal ties_to_even (long_at (Fin 10))
     [signal_row (Fin (1035 / 100)) NaN NaN NaN (Fin 60) NaN NaN] =
   Inr \<lparr>s_action = Sell, s_price = Fin (1040175 / 100000),
        s_stop_loss = None, s_target = None, s_reason = Some TakeProfitOverbought\<rparr>
   \<and> generate_daily_signal ties_to_even (long_at (Fin 10))
     [signal_row (Fin (975 / 100)) NaN NaN NaN (Fin 60) NaN NaN] =
   Inr \<lparr>s_action = Sell, s_price = Fin (975 / 100 * (995 / 1000)),
        s_stop_loss = None, s_target = None, s_reason = Some StopLoss\<rparr>"
  using long_signal [where tie = ties_to_even, of "long_at (Fin 10)" "Fin 10"
      "[signal_row (Fin (1035 / 100)) NaN NaN NaN (Fin 60) NaN NaN]" "Fin (35 / 1000)"]
    long_signal [where tie = ties_to_even, of "long_at (Fin 10)" "Fin 10"
      "[signal_row (Fin (975 / 100)) NaN NaN NaN (Fin 60) NaN NaN]" "Fin (- (25 / 1000))"]
  by (simp add: long_at_def signal_row_def fsub_def fgt_def)

text \<open>The first scenario does not sell at 10.40.\<close>

theorem long_sell_price_counterexample:
  "generate_daily_signal ties_to_even (long_at (Fin 10))
     [signal_row (Fin (1035 / 100)) NaN NaN NaN (Fin 60) NaN NaN] \<noteq>
   Inr \<lparr>s_action = Sell, s_price = Fin (1040 / 100),
        s_stop_loss = None, s_target = None, s_reason = Some TakeProfitOverbought\<rparr>"
  by (simp add: generate_daily_signal_def long_at_def signal_row_def fsub_def fgt_def Let_def)

section \<open>Errors of the signal generator\<close>

lemma flt_NaN_right [simp]: "flt a NaN = False"
  by (cases a) simp_all

text \<open>
  Claim C4, as amended. The signal generator raises nothing on account of an indicator:
  it returns a signal for every non-empty frame in the flat state, and in the long state
  with a last trade price, whatever columns of the latest row are NaN. It fails only on
  an empty frame and in the long state without a last trade price.
\<close>

theorem no_missing_indicator_error:
  "is_error (generate_daily_signal tie self stock_data) =
     (stock_data = [] \<or> (position self \<noteq> 0 \<and> last_trade_price self = None))"
  by (simp add: generate_daily_signal_def is_error_def Let_def split: option.split)

text \<open>
  A row whose indicators are all NaN gives a signal in both states; the empty frame is
  an error.
\<close>

theorem no_missing_indicator_error_witness:
  "\<not> is_error (generate_daily_signal ties_to_even init [signal_row (Fin 10) NaN NaN NaN NaN NaN NaN])
   \<and> \<not> is_error (generate_daily_signal ties_to_even (long_at (Fin 10)) [signal_row NaN NaN NaN NaN NaN NaN NaN])
   \<and> is_error (generate_daily_signal ties_to_even init [])"
  using no_missing_indicator_error [of ties_to_even init "[signal_row (Fin 10) NaN NaN NaN NaN NaN NaN]"]
    no_missing_indicator_error [of ties_to_even "long_at (Fin 10)" "[signal_row NaN NaN NaN NaN NaN NaN NaN]"]
    no_missing_indicator_error [of ties_to_even init "[]"]
  by (simp add: init_def long_at_def)

text \<open>
  The claim as stated fails: with MA5, MA20, MA60, RSI, ATR and S1 all missing, the flat
  state returns a sell signal, not an error.
\<close>

theorem missing_indicator_counterexample:
  "MA5 (signal_row (Fin 10) NaN NaN NaN NaN NaN NaN) = NaN
   \<and> generate_daily_signal ties_to_even init [signal_row (Fin 10) NaN NaN NaN NaN NaN NaN] =
     Inr \<lparr>s_action = Sell, s_price = Fin 10, s_stop_loss = Some (Fin (98 / 10)),
          s_target = Some (Fin (103 / 10)), s_reason = None\<rparr>"
  by (simp add: generate_daily_signal_def init_def signal_row_def trend_up_def fgt_def Let_def)

section \<open>Properties of the position tracker\<close>

lemma execute_trade_keeps: "price_iff_long self \<Longrightarrow> price_iff_long (execute_trade self sig)"
  by (cases "s_action sig") (simp_all add: price_iff_long_def execute_trade_def Let_def)

lemma foldl_execute_keeps:
  "price_iff_long self \<Longrightarrow> price_iff_long (foldl execute_trade self sigs)"
  by (induction sigs arbitrary: self) (simp_all add: execute_trade_keeps)

text \<open>
  Claim C6. The last trade price is set exactly when the position is long: in the initial
  tracker, after \<open>execute_trade\<close> from any tracker where it held, and so after any
  sequence of signals executed from the initial tracker.
\<close>

theorem price_iff_long_invariant:
  "price_iff_long init
   \<and> (price_iff_long self \<longrightarrow> price_iff_long (execute_trade self sig))
   \<and> price_iff_long (foldl execute_trade init sigs)"
proof -
  have i: "price_iff_long init" by (simp add: price_iff_long_def init_def)
  from i show ?thesis by (simp add: execute_trade_keeps foldl_execute_keeps)
qed

theorem price_iff_long_invariant_witness:
  "price_iff_long (long_at (Fin 10))
   \<and> price_iff_long (execute_trade (long_at (Fin 10)) (advisory Sell (Fin 11)))
   \<and> price_iff_long (foldl execute_trade init [advisory Buy (Fin 10), advisory Sell (Fin 11), advisory Buy (Fin 12)])"
proof -
  have h: "price_iff_long (long_at (Fin 10))" by (simp add: price_iff_long_def long_at_def)
  from h price_iff_long_invariant [of "long_at (Fin 10)" "advisory Sell (Fin 11)"
      "[advisory Buy (Fin 10), advisory Sell (Fin 11), advisory Buy (Fin 12)]"]
  show ?thesis by simp
qed

lemma execute_hold: "s_action sig = Hold \<Longrightarrow> position_state (execute_trade self sig) = position_state self"
  by (simp add: position_state_def execute_trade_def Let_def)

lemma foldl_hold:
  "\<forall>sig \<in> set sigs. s_action sig = Hold \<Longrightarrow>
   position_state (foldl execute_trade self sigs) = position_state self"
  by (induction sigs arbitrary: self) (simp_all add: execute_hold)

text \<open>
  Claim C7. From a flat tracker without a last trade price, a buy followed by a sell gives
  back the position state (flat, no price); any number of hold signals leaves the position
  state of any tracker unchanged. The trade log grows by one entry at each call and is not
  part of the position state.
\<close>

theorem round_trip_and_hold:
  "(position self = 0 \<and> last_trade_price self = None \<and> s_action b = Buy \<and> s_action c = Sell
      \<longrightarrow> position_state (execute_trade (execute_trade self b) c) = position_state self
          \<and> position_state self = (0, None))
   \<and> ((\<forall>sig \<in> set holds. s_action sig = Hold)
      \<longrightarrow> position_state (foldl execute_trade t holds) = position_state t)"
  by (simp add: foldl_hold) (simp add: position_state_def execute_trade_def Let_def)

theorem round_trip_and_hold_witness:
  "position_state (execute_trade (execute_trade init (advisory Buy (Fin 10))) (advisory Sell (Fin 11))) = position_state init
   \<and> position_state (foldl execute_trade (long_at (Fin 10)) [hold_at (Fin 10), hold_at (Fin 11), hold_at (Fin 12)])
       = position_state (long_at (Fin 10))"
  using round_trip_and_hold [of init "advisory Buy (Fin 10)" "advisory Sell (Fin 11)"
      "[hold_at (Fin 10), hold_at (Fin 11), hold_at (Fin 12)]" "long_at (Fin 10)"]
  by (simp add: init_def advisory_def hold_at_def)

section \<open>Rounded and unrounded prices\<close>



section \<open>Columns of the indicator engine\<close>

lemma length_rolling_mean [simp]: "length (rolling_mean k xs) = length xs"
  by (simp add: rolling_mean_def)

lemma length_rolling_max [simp]: "length (rolling_max k xs) = length xs"
  by (simp add: rolling_max_def)

lemma length_rolling_min [simp]: "length (rolling_min k xs) = length xs"
  by (simp add: rolling_min_def)

lemma length_diff [simp]: "length (diff xs) = length xs"
  by (cases xs) (simp_all add: diff_def)

lemma length_ewm_from [simp]: "length (ewm_from alpha num den xs) = length xs"
  by (induction xs arbitrary: num den) (simp_all add: Let_def)

lemma length_gain [simp]: "length (gain xs) = length xs"
  by (simp add: gain_def where_series_def)

lemma length_loss [simp]: "length (loss xs) = length xs"
  by (simp add: loss_def where_series_def)

lemma length_avg_gain [simp]: "length (avg_gain xs) = length xs"
  by (simp add: avg_gain_def ewm_mean_def)

lemma length_avg_loss [simp]: "length (avg_loss xs) = length xs"
  by (simp add: avg_loss_def ewm_mean_def)

lemma length_calculate_indicators [simp]: "length (calculate_indicators df) = length df"
  by (simp add: calculate_indicators_def Let_def)

lemma RSI_row:
  "i < length df \<Longrightarrow>
   RSI (calculate_indicators df ! i) =
     rsi_of (avg_gain (map close df) ! i) (avg_loss (map close df) ! i)"
  by (simp add: calculate_indicators_def Let_def)

lemma MA_row:
  "i < length df \<Longrightarrow>
   MA5 (calculate_indicators df ! i) = rolling_mean 5 (map close df) ! i \<and>
   MA20 (calculate_indicators df ! i) = rolling_mean 20 (map close df) ! i \<and>
   MA60 (calculate_indicators df ! i) = rolling_mean 60 (map close df) ! i"
  by (simp add: calculate_indicators_def Let_def)

lemma ATR_row:
  "i < length df \<Longrightarrow>
   ATR (calculate_indicators df ! i) =
     fsub (rolling_max 14 (map high df) ! i) (rolling_min 14 (map low df) ! i)"
  by (simp add: calculate_indicators_def Let_def)

lemma close_row:
  "i < length df \<Longrightarrow> r_close (calculate_indicators df ! i) = Fin (close (df ! i))"
  by (simp add: calculate_indicators_def Let_def)

lemma rsi_of_zero_loss: "0 < g \<Longrightarrow> rsi_of (Fin g) (Fin 0) = Fin 100"
  by (simp add: rsi_of_def fsub_def inf_signed_def)

lemma rsi_of_zero_both: "rsi_of (Fin 0) (Fin 0) = NaN"
  by (simp add: rsi_of_def fsub_def)

text \<open>Had the zero divisor been negative, the result would be the same.\<close>

lemma rsi_tail_NInf: "fsub (Fin 100) (fdiv (Fin 100) (fadd (Fin 1) NInf)) = Fin 100"
  by (simp add: fsub_def)

lemma ewm_from_zero:
  "\<forall>x \<in> set xs. x = Fin 0 \<Longrightarrow> 0 \<le> den \<Longrightarrow> i < length xs \<Longrightarrow>
   ewm_from (1 / 14) (Fin 0) den xs ! i = Fin 0"
proof (induction xs arbitrary: den i)
  case Nil
  then show ?case by simp
next
  case (Cons x xs)
  have pos: "0 \<le> 1 + (1 - 1 / 14) * den" using Cons.prems(2) by simp
  have ne: "1 + (1 - 1 / 14) * den \<noteq> 0" using Cons.prems(2) by (simp add: add_nonneg_eq_0_iff)
  show ?case
  proof (cases i)
    case 0
    with Cons.prems ne show ?thesis by (simp add: Let_def)
  next
    case (Suc j)
    with Cons.prems Cons.IH [of "1 + (1 - 1 / 14) * den" j] pos show ?thesis
      by (simp add: Let_def)
  qed
qed

lemma diff_nth_0: "xs \<noteq> [] \<Longrightarrow> diff xs ! 0 = NaN"
  by (cases xs) (simp_all add: diff_def)

lemma diff_nth_Suc: "Suc i < length xs \<Longrightarrow> diff xs ! Suc i = Fin (xs ! Suc i - xs ! i)"
  by (cases xs) (simp_all add: diff_def)

lemma gain_nth_0: "xs \<noteq> [] \<Longrightarrow> gain xs ! 0 = Fin 0"
  by (simp add: gain_def where_series_def diff_nth_0 fgt_def)

lemma loss_nth_0: "xs \<noteq> [] \<Longrightarrow> loss xs ! 0 = Fin 0"
  by (simp add: loss_def where_series_def diff_nth_0)

lemma gain_nth_Suc:
  "Suc i < length xs \<Longrightarrow> gain xs ! Suc i = Fin (max 0 (xs ! Suc i - xs ! i))"
  by (simp add: gain_def where_series_def diff_nth_Suc fgt_def max_def)

lemma loss_nth_Suc:
  "Suc i < length xs \<Longrightarrow> loss xs ! Suc i = Fin (max 0 (xs ! i - xs ! Suc i))"
  by (simp add: loss_def where_series_def diff_nth_Suc max_def)

lemma avg_zero:
  assumes "\<forall>x \<in> set xs. x = Fin 0" and "i < length xs"
  shows "ewm_mean (1 / 14) xs ! i = Fin 0"
  using assms ewm_from_zero [of xs 0 i] by (simp add: ewm_mean_def)

lemma gain_all_zero:
  assumes "\<forall>j < length xs. xs ! j = c"
  shows "\<forall>x \<in> set (gain xs). x = Fin 0"
proof -
  have "gain xs ! j = Fin 0" if "j < length xs" for j
  proof (cases j)
    case 0
    with that show ?thesis by (simp add: gain_nth_0)
  next
    case (Suc k)
    with that assms show ?thesis by (simp add: gain_nth_Suc)
  qed
  then show ?thesis by (auto simp add: in_set_conv_nth)
qed

lemma loss_all_zero:
  assumes "\<forall>j < length xs. \<forall>k < length xs. j \<le> k \<longrightarrow> xs ! j \<le> xs ! k"
  shows "\<forall>x \<in> set (loss xs). x = Fin 0"
proof -
  have "loss xs ! j = Fin 0" if "j < length xs" for j
  proof (cases j)
    case 0
    with that show ?thesis by (simp add: loss_nth_0)
  next
    case (Suc k)
    with that assms have "xs ! k \<le> xs ! Suc k" by simp
    with Suc that show ?thesis by (simp add: loss_nth_Suc max_def)
  qed
  then show ?thesis by (auto simp add: in_set_conv_nth)
qed

text \<open>
  Claim C3, as amended. At a row whose smoothed average loss is zero, the RSI is 100 when
  the smoothed average gain is positive, and NaN when the smoothed average gain is zero
  too; on constant closes both averages are zero at every row, so every RSI is NaN. The
  code has no guard on the divisor.
\<close>

theorem rsi_zero_average_loss:
  "(i < length df \<and> avg_loss (map close df) ! i = Fin 0 \<and>
      avg_gain (map close df) ! i = Fin g \<and> 0 < g
      \<longrightarrow> RSI (calculate_indicators df ! i) = Fin 100)
   \<and> (i < length df \<and> avg_loss (map close df) ! i = Fin 0 \<and>
      avg_gain (map close df) ! i = Fin 0
      \<longrightarrow> RSI (calculate_indicators df ! i) = NaN)
   \<and> (i < length df \<and> (\<forall>j < length df. close (df ! j) = c)
      \<longrightarrow> avg_loss (map close df) ! i = Fin 0 \<and> RSI (calculate_indicators df ! i) = NaN)"
proof -
  have const: "avg_loss (map close df) ! i = Fin 0 \<and> avg_gain (map close df) ! i = Fin 0"
    if i: "i < length df" and c: "\<forall>j < length df. close (df ! j) = c"
  proof -
    from c have all: "\<forall>j < length (map close df). map close df ! j = c" by simp
    then have "\<forall>j < length (map close df). \<forall>k < length (map close df).
        j \<le> k \<longrightarrow> map close df ! j \<le> map close df ! k"
      by simp
    then have l: "\<forall>x \<in> set (loss (map close df)). x = Fin 0" by (rule loss_all_zero)
    from all have g: "\<forall>x \<in> set (gain (map close df)). x = Fin 0" by (rule gain_all_zero)
    from i l g show ?thesis by (simp add: avg_loss_def avg_gain_def avg_zero)
  qed
  show ?thesis
    using const by (auto simp add: RSI_row rsi_of_zero_loss rsi_of_zero_both)
qed

text \<open>Closes 10, 11: the second row has RSI 100. Closes 10, 10: it has RSI NaN.\<close>

theorem rsi_zero_average_loss_witness:
  "avg_loss (map close [flat_bar 10, flat_bar 11]) ! 1 = Fin 0
   \<and> avg_gain (map close [flat_bar 10, flat_bar 11]) ! 1 = Fin (14 / 27)
   \<and> RSI (calculate_indicators [flat_bar 10, flat_bar 11] ! 1) = Fin 100
   \<and> avg_loss (map close [flat_bar 10, flat_bar 10]) ! 1 = Fin 0
   \<and> avg_gain (map close [flat_bar 10, flat_bar 10]) ! 1 = Fin 0
   \<and> RSI (calculate_indicators [flat_bar 10, flat_bar 10] ! 1) = NaN"
proof -
  have l: "avg_loss (map close [flat_bar 10, flat_bar 11]) ! 1 = Fin 0"
    by (simp add: avg_loss_def ewm_mean_def loss_def where_series_def diff_def flat_bar_def Let_def)
  have g: "avg_gain (map close [flat_bar 10, flat_bar 11]) ! 1 = Fin (14 / 27)"
    by (simp add: avg_gain_def ewm_mean_def gain_def where_series_def diff_def flat_bar_def
        fgt_def Let_def)
  have l0: "avg_loss (map close [flat_bar 10, flat_bar 10]) ! 1 = Fin 0"
    by (simp add: avg_loss_def ewm_mean_def loss_def where_series_def diff_def flat_bar_def Let_def)
  have g0: "avg_gain (map close [flat_bar 10, flat_bar 10]) ! 1 = Fin 0"
    by (simp add: avg_gain_def ewm_mean_def gain_def where_series_def diff_def flat_bar_def
        fgt_def Let_def)
  from l g l0 g0
    rsi_zero_average_loss [of 1 "[flat_bar 10, flat_bar 11]" "14 / 27"]
    rsi_zero_average_loss [of 1 "[flat_bar 10, flat_bar 10]"]
  show ?thesis by simp
qed

text \<open>
  The claim as stated fails on constant closes 10, 10, 10: the average loss of the third
  row is zero and its RSI is NaN, not 100.
\<close>

theorem rsi_constant_closes_counterexample:
  "avg_loss (map close [flat_bar 10, flat_bar 10, flat_bar 10]) ! 2 = Fin 0
   \<and> RSI (calculate_indicators [flat_bar 10, flat_bar 10, flat_bar 10] ! 2) = NaN
   \<and> RSI (calculate_indicators [flat_bar 10, flat_bar 10, flat_bar 10] ! 2) \<noteq> Fin 100"
  by (simp add: calculate_indicators_def avg_loss_def avg_gain_def ewm_mean_def loss_def gain_def
      where_series_def diff_def flat_bar_def fgt_def rsi_of_def fsub_def Let_def)

section \<open>Short histories\<close>

lemma rolling_mean_nth:
  "i < length xs \<Longrightarrow>
   rolling_mean k xs ! i = (if Suc i < k then NaN else Fin (sum_list (window k xs i) / real k))"
  by (simp add: rolling_mean_def)

lemma rolling_max_short: "i < length xs \<Longrightarrow> Suc i < k \<Longrightarrow> rolling_max k xs ! i = NaN"
  by (simp add: rolling_max_def)

lemma calculate_indicators_Nil_iff [simp]: "(calculate_indicators df = []) = (df = [])"
  using length_calculate_indicators [of df] by (metis length_0_conv)

lemma last_calculate_indicators:
  "df \<noteq> [] \<Longrightarrow> last (calculate_indicators df) = calculate_indicators df ! (length df - 1)"
  by (simp add: last_conv_nth)

text \<open>
  Claim C8, as amended. With fewer rows than a window the indicator engine raises nothing:
  the row's MA5, MA20, MA60 or ATR is NaN when fewer than 5, 20, 60 or 14 rows have been
  seen. On a non-empty frame of fewer than 60 rows in the flat state the generator then
  returns the sell at close of its second branch, and the cycle executes it; the
  exception printed afterwards is the KeyError of the report, which every signal of the
  flat state meets.
\<close>

theorem short_history_is_silent:
  "(i < length df \<longrightarrow>
      (Suc i < 5 \<longrightarrow> MA5 (calculate_indicators df ! i) = NaN) \<and>
      (Suc i < 20 \<longrightarrow> MA20 (calculate_indicators df ! i) = NaN) \<and>
      (Suc i < 60 \<longrightarrow> MA60 (calculate_indicators df ! i) = NaN) \<and>
      (Suc i < 14 \<longrightarrow> ATR (calculate_indicators df ! i) = NaN))
   \<and> (df \<noteq> [] \<and> length df < 60 \<and> position self = 0 \<longrightarrow>
        generate_daily_signal tie self (calculate_indicators df) =
          Inr (advisory Sell (Fin (close (last df)))) \<and>
        run_daily_strategy tie self df =
          (execute_trade self (advisory Sell (Fin (close (last df)))), Failed KeyError))"
proof -
  have rows: "(Suc i < 5 \<longrightarrow> MA5 (calculate_indicators df ! i) = NaN) \<and>
      (Suc i < 20 \<longrightarrow> MA20 (calculate_indicators df ! i) = NaN) \<and>
      (Suc i < 60 \<longrightarrow> MA60 (calculate_indicators df ! i) = NaN) \<and>
      (Suc i < 14 \<longrightarrow> ATR (calculate_indicators df ! i) = NaN)" if "i < length df"
    using that by (simp add: MA_row ATR_row rolling_mean_nth rolling_max_short fsub_def)
  have sig: "generate_daily_signal tie self (calculate_indicators df) =
          Inr (advisory Sell (Fin (close (last df))))"
    if ne: "df \<noteq> []" and short: "length df < 60" and flat: "position self = 0"
  proof -
    let ?n = "length df - 1"
    from ne have n: "?n < length df" by simp
    from n short have "MA60 (calculate_indicators df ! ?n) = NaN"
      by (simp add: MA_row rolling_mean_nth)
    with ne have ma: "MA60 (last (calculate_indicators df)) = NaN"
      by (simp add: last_calculate_indicators)
    from ne n have cl: "r_close (last (calculate_indicators df)) = Fin (close (last df))"
      by (simp add: last_calculate_indicators close_row last_conv_nth)
    from ne flat ma cl show ?thesis
      by (simp add: generate_daily_signal_def trend_up_def fgt_def advisory_def Let_def)
  qed
  have run: "run_daily_strategy tie self df =
          (execute_trade self (advisory Sell (Fin (close (last df)))), Failed KeyError)"
    if "df \<noteq> []" and "length df < 60" and "position self = 0"
    using sig [OF that] by (simp add: run_daily_strategy_def advisory_def Let_def)
  from rows sig run show ?thesis by blast
qed

text \<open>Two bars, closes 10 and 11, from the initial tracker.\<close>

theorem short_history_is_silent_witness:
  "MA5 (calculate_indicators [flat_bar 10, flat_bar 11] ! 1) = NaN
   \<and> MA20 (calculate_indicators [flat_bar 10, flat_bar 11] ! 1) = NaN
   \<and> MA60 (calculate_indicators [flat_bar 10, flat_bar 11] ! 1) = NaN
   \<and> ATR (calculate_indicators [flat_bar 10, flat_bar 11] ! 1) = NaN
   \<and> generate_daily_signal ties_to_even init (calculate_indicators [flat_bar 10, flat_bar 11]) =
       Inr \<lparr>s_action = Sell, s_price = Fin 11, s_stop_loss = Some (Fin (1078 / 100)),
            s_target = Some (Fin (1133 / 100)), s_reason = None\<rparr>
   \<and> run_daily_strategy ties_to_even init [flat_bar 10, flat_bar 11] =
       (\<lparr>position = 0, last_trade_price = None,
         trade_log = [\<lparr>t_action = Sell, t_price = Fin 11, t_position = 0\<rparr>]\<rparr>, Failed KeyError)"
  using short_history_is_silent [of 1 "[flat_bar 10, flat_bar 11]" init ties_to_even]
  by (simp add: init_def advisory_def flat_bar_def execute_trade_def Let_def)

text \<open>
  The claim as stated fails on a single bar: the row is returned with NaN indicators, and
  the generator returns a signal from it.
\<close>

theorem short_history_counterexample:
  "calculate_indicators [flat_bar 10] =
     [\<lparr>r_high = Fin 10, r_low = Fin 10, r_close = Fin 10, MA5 = NaN, MA20 = NaN, MA60 = NaN,
       ATR = NaN, RSI = NaN, Pivot = Fin 10, S1 = Fin 10, R1 = Fin 10\<rparr>]
   \<and> generate_daily_signal ties_to_even init (calculate_indicators [flat_bar 10]) =
       Inr \<lparr>s_action = Sell, s_price = Fin 10, s_stop_loss = Some (Fin (98 / 10)),
            s_target = Some (Fin (103 / 10)), s_reason = None\<rparr>"
  by (simp add: calculate_indicators_def rolling_mean_def rolling_max_def rolling_min_def
      avg_loss_def avg_gain_def ewm_mean_def loss_def gain_def where_series_def diff_def
      flat_bar_def fgt_def rsi_of_def fsub_def pivot_of_def generate_daily_signal_def init_def
      trend_up_def Let_def)

section \<open>Rising closes\<close>

lemma below_sum:
  "\<forall>b \<in> set B. a < b \<Longrightarrow> B \<noteq> [] \<Longrightarrow> real (length B) * a < sum_list B"
proof (induction B)
  case Nil
  then show ?case by simp
next
  case (Cons b B)
  show ?case
  proof (cases "B = []")
    case True
    with Cons.prems show ?thesis by simp
  next
    case False
    with Cons have "real (length B) * a < sum_list B" by simp
    moreover from Cons.prems have "a < b" by simp
    ultimately show ?thesis by (simp add: algebra_simps)
  qed
qed

lemma cross_sum:
  "\<forall>a \<in> set A. \<forall>b \<in> set B. a < b \<Longrightarrow> A \<noteq> [] \<Longrightarrow> B \<noteq> [] \<Longrightarrow>
   real (length B) * sum_list A < real (length A) * sum_list B"
proof (induction A)
  case Nil
  then show ?case by simp
next
  case (Cons a A)
  from Cons.prems have first: "real (length B) * a < sum_list B"
    by (simp add: below_sum)
  show ?case
  proof (cases "A = []")
    case True
    with first show ?thesis by simp
  next
    case False
    with Cons have "real (length B) * sum_list A < real (length A) * sum_list B" by simp
    with first show ?thesis by (simp add: algebra_simps)
  qed
qed

lemma mean_suffix_less:
  fixes xs :: "real list"
  assumes inc: "sorted_wrt (<) xs" and j: "0 < j" and jk: "j < k" and k: "k \<le> length xs"
  shows "sum_list (drop (length xs - k) xs) / real k < sum_list (drop (length xs - j) xs) / real j"
proof -
  define S where "S = drop (length xs - k) xs"
  define A where "A = take (k - j) S"
  define B where "B = drop (k - j) S"
  have B: "B = drop (length xs - j) xs" using jk k by (simp add: B_def S_def)
  have lenA: "length A = k - j" using jk k by (simp add: A_def S_def)
  have lenB: "length B = j" using jk k by (simp add: B_def S_def)
  have S: "S = A @ B" by (simp add: A_def B_def)
  have "sorted_wrt (<) S" unfolding S_def using inc by (rule sorted_wrt_drop)
  then have lt: "\<forall>a \<in> set A. \<forall>b \<in> set B. a < b"
    unfolding S by (simp add: sorted_wrt_append)
  have neA: "A \<noteq> []" using lenA jk by auto
  have neB: "B \<noteq> []" using lenB j by auto
  have "real (length B) * sum_list A < real (length A) * sum_list B"
    using lt neA neB by (rule cross_sum)
  then have c: "real j * sum_list A < (real k - real j) * sum_list B"
    using jk by (simp add: lenA lenB of_nat_diff)
  have split: "sum_list S = sum_list A + sum_list B" by (simp add: S)
  from c have "real j * (sum_list A + sum_list B) < real k * sum_list B"
    by (simp add: algebra_simps)
  with j jk have "(sum_list A + sum_list B) / real k < sum_list B / real j"
    by (simp add: field_simps)
  then have "sum_list S / real k < sum_list B / real j" by (simp only: split)
  then show ?thesis unfolding B unfolding S_def .
qed

lemma window_last: "k \<le> length xs \<Longrightarrow> window k xs (length xs - 1) = drop (length xs - k) xs"
  by (cases "length xs") (simp_all add: window_def)

lemma rolling_mean_last:
  "0 < k \<Longrightarrow> k \<le> length xs \<Longrightarrow>
   rolling_mean k xs ! (length xs - 1) = Fin (sum_list (drop (length xs - k) xs) / real k)"
proof -
  assume k: "0 < k" "k \<le> length xs"
  then have n: "length xs - 1 < length xs" and s: "Suc (length xs - 1) = length xs" by simp_all
  from k have "\<not> Suc (length xs - 1) < k" unfolding s by simp
  with n k show ?thesis by (simp only: rolling_mean_nth window_last if_False)
qed

lemma ewm_from_pos:
  "\<forall>x \<in> set xs. \<exists>r. x = Fin r \<and> 0 \<le> r \<Longrightarrow> 0 \<le> n \<Longrightarrow> 0 \<le> den \<Longrightarrow> i < length xs \<Longrightarrow>
   xs ! i = Fin r \<Longrightarrow> 0 < r \<Longrightarrow>
   \<exists>g. ewm_from (1 / 14) (Fin n) den xs ! i = Fin g \<and> 0 < g"
proof (induction xs arbitrary: n den i)
  case Nil
  then show ?case by simp
next
  case (Cons x xs)
  from Cons.prems(1) obtain r0 where x: "x = Fin r0" and r0: "0 \<le> r0" by auto
  have den': "0 < 1 + (1 - 1 / 14) * den" using Cons.prems(3) by (simp add: add_pos_nonneg)
  have n': "0 \<le> r0 + (1 - 1 / 14) * n" using r0 Cons.prems(2) by simp
  show ?case
  proof (cases i)
    case 0
    with Cons.prems x have "r0 = r" by simp
    with Cons.prems(6) Cons.prems(2) have "0 < r0 + (1 - 1 / 14) * n" by (simp add: add_pos_nonneg)
    with den' 0 x show ?thesis by (simp add: Let_def)
  next
    case (Suc j)
    with Cons.prems Cons.IH [of "r0 + (1 - 1 / 14) * n" "1 + (1 - 1 / 14) * den" j] n' den' x
    show ?thesis by (simp add: Let_def)
  qed
qed

lemma gain_nonneg: "\<forall>x \<in> set (gain xs). \<exists>r. x = Fin r \<and> 0 \<le> r"
proof -
  have "\<exists>r. gain xs ! j = Fin r \<and> 0 \<le> r" if "j < length xs" for j
  proof (cases j)
    case 0
    with that show ?thesis by (simp add: gain_nth_0)
  next
    case (Suc k)
    with that show ?thesis by (simp add: gain_nth_Suc)
  qed
  then show ?thesis by (auto simp add: in_set_conv_nth)
qed

lemma rising_rsi:
  assumes inc: "sorted_wrt (<) xs" and len: "2 \<le> length xs"
  shows "rsi_of (avg_gain xs ! (length xs - 1)) (avg_loss xs ! (length xs - 1)) = Fin 100"
proof -
  let ?n = "length xs - 1"
  from len obtain m where m: "?n = Suc m" by (cases "length xs - 1") simp_all
  from len have n: "?n < length xs" by simp
  from inc have mono: "\<forall>j < length xs. \<forall>k < length xs. j \<le> k \<longrightarrow> xs ! j \<le> xs ! k"
    by (metis le_less less_le_not_le sorted_wrt_iff_nth_less order_refl linorder_not_le nless_le)
  then have "\<forall>x \<in> set (loss xs). x = Fin 0" by (rule loss_all_zero)
  with n have l: "avg_loss xs ! ?n = Fin 0" by (simp add: avg_loss_def avg_zero)
  from inc m n have "xs ! m < xs ! Suc m" by (simp add: sorted_wrt_iff_nth_less)
  with m n have g1: "gain xs ! ?n = Fin (xs ! Suc m - xs ! m)" and g2: "0 < xs ! Suc m - xs ! m"
    by (simp_all add: gain_nth_Suc)
  from ewm_from_pos [OF gain_nonneg _ _ _ g1 g2, of 0 0] n
  obtain g where "avg_gain xs ! ?n = Fin g" and "0 < g"
    by (auto simp add: avg_gain_def ewm_mean_def)
  with l show ?thesis by (simp add: rsi_of_zero_loss)
qed

text \<open>
  Claim C5. On at least 60 bars with strictly increasing closes the latest row has
  MA5 > MA20 > MA60 (so MA5 >= MA20 >= MA60), and the flat state returns a buy. The RSI of
  that row is 100, so the buy is the one of the second branch, at close.
\<close>

theorem rising_closes_buy:
  assumes len: "60 \<le> length df" and inc: "sorted_wrt (<) (map close df)"
    and flat: "position self = 0"
  shows "flt (MA60 (last (calculate_indicators df))) (MA20 (last (calculate_indicators df)))
       \<and> flt (MA20 (last (calculate_indicators df))) (MA5 (last (calculate_indicators df)))
       \<and> fge (MA5 (last (calculate_indicators df))) (MA20 (last (calculate_indicators df)))
       \<and> fge (MA20 (last (calculate_indicators df))) (MA60 (last (calculate_indicators df)))
       \<and> RSI (last (calculate_indicators df)) = Fin 100
       \<and> generate_daily_signal tie self (calculate_indicators df) =
           Inr (advisory Buy (Fin (close (last df))))"
proof -
  let ?xs = "map close df"
  let ?n = "length df - 1"
  let ?r = "last (calculate_indicators df)"
  from len have ne: "df \<noteq> []" by auto
  from len have n: "?n < length df" by simp
  from ne have r: "?r = calculate_indicators df ! ?n" by (rule last_calculate_indicators)
  have lx: "length ?xs = length df" by simp
  from len have m5: "MA5 ?r = Fin (sum_list (drop (length ?xs - 5) ?xs) / real 5)"
    unfolding r using MA_row [OF n] rolling_mean_last [of 5 ?xs] by simp
  from len have m20: "MA20 ?r = Fin (sum_list (drop (length ?xs - 20) ?xs) / real 20)"
    unfolding r using MA_row [OF n] rolling_mean_last [of 20 ?xs] by simp
  from len have m60: "MA60 ?r = Fin (sum_list (drop (length ?xs - 60) ?xs) / real 60)"
    unfolding r using MA_row [OF n] rolling_mean_last [of 60 ?xs] by simp
  from len have a: "flt (MA20 ?r) (MA5 ?r)"
    unfolding m5 m20 using mean_suffix_less [OF inc, of 5 20] by simp
  from len have b: "flt (MA60 ?r) (MA20 ?r)"
    unfolding m20 m60 using mean_suffix_less [OF inc, of 20 60] by simp
  from len have rsi: "RSI ?r = Fin 100"
    unfolding r using RSI_row [OF n] rising_rsi [OF inc] by simp
  from ne n have cl: "r_close ?r = Fin (close (last df))"
    unfolding r by (simp add: close_row last_conv_nth)
  from ne flat a b rsi cl have "generate_daily_signal tie self (calculate_indicators df) =
           Inr (advisory Buy (Fin (close (last df))))"
    by (simp add: generate_daily_signal_def trend_up_def fgt_def advisory_def Let_def)
  with a b rsi show ?thesis by (simp add: fge_def)
qed

text \<open>Sixty bars with closes 10, 11, ..., 69.\<close>

theorem rising_closes_buy_witness:
  "60 \<le> length (rising_bars 60) \<and> sorted_wrt (<) (map close (rising_bars 60))
   \<and> position init = 0
   \<and> RSI (last (calculate_indicators (rising_bars 60))) = Fin 100
   \<and> generate_daily_signal ties_to_even init (calculate_indicators (rising_bars 60)) =
       Inr (advisory Buy (Fin 69))"
proof -
  have l: "60 \<le> length (rising_bars 60)" by (simp add: rising_bars_def)
  have s: "sorted_wrt (<) (map close (rising_bars 60))"
    by (simp add: rising_bars_def flat_bar_def sorted_wrt_map)
  have p: "position init = 0" by (simp add: init_def)
  have c: "close (last (rising_bars 60)) = 69"
    by (simp add: rising_bars_def flat_bar_def last_map)
  from rising_closes_buy [OF l s p, where tie = ties_to_even] l s p c show ?thesis by simp
qed

section \<open>Missing values in the flat state\<close>

text \<open>
  A smoothed average of values that are never negative is never negative, and it is zero
  only when every value so far is zero.
\<close>

lemma ewm_from_nonneg:
  "\<forall>x \<in> set xs. \<exists>r. x = Fin r \<and> 0 \<le> r \<Longrightarrow> 0 \<le> n \<Longrightarrow> 0 \<le> den \<Longrightarrow> i < length xs \<Longrightarrow>
   \<exists>g. ewm_from (1 / 14) (Fin n) den xs ! i = Fin g \<and> 0 \<le> g \<and>
       (g = 0 \<longrightarrow> n = 0 \<and> (\<forall>j \<le> i. xs ! j = Fin 0))"
proof (induction xs arbitrary: n den i)
  case Nil
  then show ?case by simp
next
  case (Cons x xs)
  from Cons.prems(1) obtain r0 where x: "x = Fin r0" and r0: "0 \<le> r0" by auto
  have den': "0 < 1 + (1 - 1 / 14) * den" using Cons.prems(3) by (simp add: add_pos_nonneg)
  have n': "0 \<le> r0 + (1 - 1 / 14) * n" using r0 Cons.prems(2) by simp
  have zero: "r0 = 0 \<and> n = 0" if "r0 + (1 - 1 / 14) * n = 0"
    using that r0 Cons.prems(2) by (simp add: add_nonneg_eq_0_iff)
  show ?case
  proof (cases i)
    case 0
    with den' n' x zero show ?thesis by (auto simp add: Let_def)
  next
    case (Suc k)
    from Cons.prems Suc have k: "k < length xs" and rest: "\<forall>x \<in> set xs. \<exists>r. x = Fin r \<and> 0 \<le> r"
      by simp_all
    from Cons.IH [OF rest n' _ k, of "1 + (1 - 1 / 14) * den"] den'
    obtain g where g: "ewm_from (1 / 14) (Fin (r0 + (1 - 1 / 14) * n)) (1 + (1 - 1 / 14) * den) xs ! k = Fin g"
      and g0: "0 \<le> g"
      and gz: "g = 0 \<longrightarrow> r0 + (1 - 1 / 14) * n = 0 \<and> (\<forall>j \<le> k. xs ! j = Fin 0)"
      by auto
    have "\<forall>j \<le> Suc k. (x # xs) ! j = Fin 0" if "g = 0"
    proof (intro allI impI)
      fix j assume "j \<le> Suc k"
      with that gz zero x show "(x # xs) ! j = Fin 0" by (cases j) simp_all
    qed
    with g g0 gz zero Suc x show ?thesis by (simp add: Let_def)
  qed
qed

lemma loss_nonneg: "\<forall>x \<in> set (loss xs). \<exists>r. x = Fin r \<and> 0 \<le> r"
proof -
  have "\<exists>r. loss xs ! j = Fin r \<and> 0 \<le> r" if "j < length xs" for j
  proof (cases j)
    case 0
    with that show ?thesis by (simp add: loss_nth_0)
  next
    case (Suc k)
    with that show ?thesis by (simp add: loss_nth_Suc)
  qed
  then show ?thesis by (auto simp add: in_set_conv_nth)
qed

lemma rsi_of_NaN:
  assumes "0 \<le> g" and "0 \<le> l" and "rsi_of (Fin g) (Fin l) = NaN"
  shows "g = 0 \<and> l = 0"
proof (cases "l = 0")
  case True
  with assms show ?thesis
    by (cases "g = 0") (simp_all add: rsi_of_def fsub_def inf_signed_def)
next
  case False
  with assms have "0 < 1 + g / l" by (simp add: add_pos_nonneg)
  with False assms show ?thesis by (simp add: rsi_of_def fsub_def)
qed

lemma no_change_constant:
  assumes g: "\<forall>j \<le> i. gain xs ! j = Fin 0" and l: "\<forall>j \<le> i. loss xs ! j = Fin 0"
    and i: "i < length xs"
  shows "j \<le> i \<Longrightarrow> xs ! j = xs ! 0"
proof (induction j)
  case 0
  show ?case by simp
next
  case (Suc k)
  with i have k: "Suc k < length xs" by simp
  from g l Suc.prems have "gain xs ! Suc k = Fin 0" and "loss xs ! Suc k = Fin 0" by simp_all
  with k have "max 0 (xs ! Suc k - xs ! k) = 0" and "max 0 (xs ! k - xs ! Suc k) = 0"
    by (simp_all add: gain_nth_Suc loss_nth_Suc)
  then have "xs ! Suc k = xs ! k" by (simp add: max_def split: if_splits)
  with Suc show ?case by simp
qed

lemma sum_list_constant: "\<forall>x \<in> set ys. x = c \<Longrightarrow> sum_list ys = real (length ys) * c"
  by (induction ys) (simp_all add: algebra_simps)

lemma window_constant:
  assumes c: "\<forall>j \<le> i. xs ! j = c" and i: "i < length xs" and k: "k \<le> Suc i"
  shows "sum_list (window k xs i) = real k * c"
proof -
  have len: "length (window k xs i) = k" using i k by (simp add: window_def)
  have "window k xs i ! m = c" if "m < k" for m
  proof -
    from that i k have "window k xs i ! m = xs ! (Suc i - k + m)" by (simp add: window_def)
    moreover from that k have "Suc i - k + m \<le> i" by simp
    ultimately show ?thesis using c by simp
  qed
  with len have "\<forall>x \<in> set (window k xs i). x = c" by (auto simp add: in_set_conv_nth)
  from sum_list_constant [OF this] len show ?thesis by simp
qed

lemma engine_nan_rsi_no_trend:
  assumes i: "i < length df" and nan: "RSI (calculate_indicators df ! i) = NaN"
  shows "\<not> trend_up (calculate_indicators df ! i)"
proof (cases "Suc i < 20")
  case True
  with i have "MA20 (calculate_indicators df ! i) = NaN" by (simp add: MA_row rolling_mean_nth)
  then show ?thesis by (simp add: trend_up_def fgt_def)
next
  case False
  let ?xs = "map close df"
  from i have ix: "i < length ?xs" by simp
  from ewm_from_nonneg [OF gain_nonneg _ _ , of 0 0 i ?xs] ix
  obtain g where g: "avg_gain ?xs ! i = Fin g" and g0: "0 \<le> g"
    and gz: "g = 0 \<longrightarrow> (\<forall>j \<le> i. gain ?xs ! j = Fin 0)"
    by (auto simp add: avg_gain_def ewm_mean_def)
  from ewm_from_nonneg [OF loss_nonneg _ _ , of 0 0 i ?xs] ix
  obtain l where l: "avg_loss ?xs ! i = Fin l" and l0: "0 \<le> l"
    and lz: "l = 0 \<longrightarrow> (\<forall>j \<le> i. loss ?xs ! j = Fin 0)"
    by (auto simp add: avg_loss_def ewm_mean_def)
  from nan i g l have "rsi_of (Fin g) (Fin l) = NaN" by (simp add: RSI_row)
  with g0 l0 have "g = 0 \<and> l = 0" by (rule rsi_of_NaN)
  with gz lz have gl: "\<forall>j \<le> i. gain ?xs ! j = Fin 0" "\<forall>j \<le> i. loss ?xs ! j = Fin 0" by simp_all
  have c: "\<forall>j \<le> i. ?xs ! j = ?xs ! 0" using no_change_constant [OF gl ix] by blast
  from False have k5: "5 \<le> Suc i" and k20: "20 \<le> Suc i" by simp_all
  from window_constant [OF c ix k5] i False
  have m5: "MA5 (calculate_indicators df ! i) = Fin (?xs ! 0)" by (simp add: MA_row rolling_mean_nth)
  from window_constant [OF c ix k20] i False
  have m20: "MA20 (calculate_indicators df ! i) = Fin (?xs ! 0)" by (simp add: MA_row rolling_mean_nth)
  from m5 m20 show ?thesis by (simp add: trend_up_def fgt_def)
qed

text \<open>
  Claim C10, as amended. In the flat state on a non-empty frame nothing is raised. When
  MA5, MA20 or MA60 of the latest row is NaN the trend test is false and the signal is
  the sell at close with stop close times 0.98 and target close times 1.03. When the RSI
  is NaN the RSI test is false and the signal has the same prices; its action is buy when
  the trend test holds and sell otherwise. On a frame that \<open>calculate_indicators\<close>
  computed from finite bars a NaN RSI means that the closes have not moved, the trend
  test fails, and the signal is that sell.
\<close>

theorem flat_missing_fields:
  assumes "position self = 0" and "stock_data \<noteq> []"
  shows "(MA5 (last stock_data) = NaN \<or> MA20 (last stock_data) = NaN \<or> MA60 (last stock_data) = NaN
          \<longrightarrow> generate_daily_signal tie self stock_data = Inr (advisory Sell (r_close (last stock_data))))
       \<and> (RSI (last stock_data) = NaN
          \<longrightarrow> generate_daily_signal tie self stock_data =
              Inr (advisory (if trend_up (last stock_data) then Buy else Sell) (r_close (last stock_data))))
       \<and> (stock_data = calculate_indicators df \<and> RSI (last stock_data) = NaN
          \<longrightarrow> generate_daily_signal tie self stock_data = Inr (advisory Sell (r_close (last stock_data))))"
proof -
  have gen: "generate_daily_signal tie self stock_data =
      Inr (advisory (if trend_up (last stock_data) then Buy else Sell) (r_close (last stock_data)))"
    if "\<not> (trend_up (last stock_data) \<and> flt (RSI (last stock_data)) (Fin 70))"
    using that assms by (auto simp add: generate_daily_signal_def advisory_def Let_def)
  have ma: "\<not> trend_up (last stock_data)"
    if "MA5 (last stock_data) = NaN \<or> MA20 (last stock_data) = NaN \<or> MA60 (last stock_data) = NaN"
    using that by (auto simp add: trend_up_def fgt_def)
  have engine: "\<not> trend_up (last stock_data)"
    if sd: "stock_data = calculate_indicators df" and nan: "RSI (last stock_data) = NaN"
  proof -
    from assms(2) sd have ne: "df \<noteq> []" by simp
    then have n: "length df - 1 < length df" by simp
    from ne sd have l: "last stock_data = calculate_indicators df ! (length df - 1)"
      by (simp add: last_calculate_indicators)
    from nan engine_nan_rsi_no_trend [OF n] show ?thesis unfolding l by simp
  qed
  from gen ma engine show ?thesis by auto
qed

text \<open>
  A missing MA20; a missing RSI under a falling trend; the frame of two bars with equal
  closes: all three sell at close.
\<close>

theorem flat_missing_fields_witness:
  "generate_daily_signal ties_to_even init [signal_row (Fin 10) (Fin 11) NaN (Fin 9) (Fin 50) (Fin 1) (Fin 9)] =
     Inr \<lparr>s_action = Sell, s_price = Fin 10, s_stop_loss = Some (Fin (98 / 10)),
          s_target = Some (Fin (103 / 10)), s_reason = None\<rparr>
   \<and> generate_daily_signal ties_to_even init [signal_row (Fin 10) (Fin 9) (Fin 10) (Fin 11) NaN (Fin 1) (Fin 9)] =
     Inr \<lparr>s_action = Sell, s_price = Fin 10, s_stop_loss = Some (Fin (98 / 10)),
          s_target = Some (Fin (103 / 10)), s_reason = None\<rparr>
   \<and> RSI (last (calculate_indicators [flat_bar 10, flat_bar 10])) = NaN
   \<and> generate_daily_signal ties_to_even init (calculate_indicators [flat_bar 10, flat_bar 10]) =
     Inr \<lparr>s_action = Sell, s_price = Fin 10, s_stop_loss = Some (Fin (98 / 10)),
          s_target = Some (Fin (103 / 10)), s_reason = None\<rparr>"
proof -
  let ?e = "calculate_indicators [flat_bar 10, flat_bar 10]"
  have p: "position init = 0" by (simp add: init_def)
  have ne: "?e \<noteq> []" by simp
  have nan: "RSI (last ?e) = NaN"
    by (simp add: calculate_indicators_def avg_loss_def avg_gain_def ewm_mean_def loss_def
        gain_def where_series_def diff_def flat_bar_def fgt_def rsi_of_def fsub_def Let_def)
  have cl: "r_close (last ?e) = Fin 10"
    by (simp add: calculate_indicators_def flat_bar_def Let_def)
  from flat_missing_fields [OF p ne, of ties_to_even "[flat_bar 10, flat_bar 10]"] nan
  have "generate_daily_signal ties_to_even init ?e = Inr (advisory Sell (r_close (last ?e)))" by blast
  then have e: "generate_daily_signal ties_to_even init ?e =
     Inr \<lparr>s_action = Sell, s_price = Fin 10, s_stop_loss = Some (Fin (98 / 10)),
          s_target = Some (Fin (103 / 10)), s_reason = None\<rparr>"
    unfolding cl by (simp add: advisory_def)
  have a: "generate_daily_signal ties_to_even init [signal_row (Fin 10) (Fin 11) NaN (Fin 9) (Fin 50) (Fin 1) (Fin 9)] =
     Inr \<lparr>s_action = Sell, s_price = Fin 10, s_stop_loss = Some (Fin (98 / 10)),
          s_target = Some (Fin (103 / 10)), s_reason = None\<rparr>"
    using flat_missing_fields [where tie = ties_to_even, of init "[signal_row (Fin 10) (Fin 11) NaN (Fin 9) (Fin 50) (Fin 1) (Fin 9)]"]
    by (simp add: init_def signal_row_def advisory_def)
  have b: "generate_daily_signal ties_to_even init [signal_row (Fin 10) (Fin 9) (Fin 10) (Fin 11) NaN (Fin 1) (Fin 9)] =
     Inr \<lparr>s_action = Sell, s_price = Fin 10, s_stop_loss = Some (Fin (98 / 10)),
          s_target = Some (Fin (103 / 10)), s_reason = None\<rparr>"
    using flat_missing_fields [where tie = ties_to_even, of init "[signal_row (Fin 10) (Fin 9) (Fin 10) (Fin 11) NaN (Fin 1) (Fin 9)]"]
    by (simp add: init_def signal_row_def advisory_def trend_up_def fgt_def)
  from a b nan e show ?thesis by (simp only: simp_thms)
qed

text \<open>
  A missing RSI under MA5 > MA20 > MA60 gives a buy, where the claim says sell.
\<close>

theorem missing_rsi_buy_counterexample:
  "RSI (signal_row (Fin 10) (Fin (105 / 10)) (Fin 10) (Fin (95 / 10)) NaN (Fin (5 / 10)) (Fin (98 / 10))) = NaN
   \<and> generate_daily_signal ties_to_even init
      [signal_row (Fin 10) (Fin (105 / 10)) (Fin 10) (Fin (95 / 10)) NaN (Fin (5 / 10)) (Fin (98 / 10))] =
     Inr \<lparr>s_action = Buy, s_price = Fin 10, s_stop_loss = Some (Fin (98 / 10)),
          s_target = Some (Fin (103 / 10)), s_reason = None\<rparr>"
  by (simp add: generate_daily_signal_def init_def signal_row_def trend_up_def fgt_def Let_def)

end
